theory Spec2Isabelle
  imports Complex_Main "HOL-Library.Word" "HOL-Library.AList"
begin

section \<open>The student record service of \<open>app.py\<close>\<close>

text \<open>
  The service has five request handlers over one MongoDB collection, \<open>db["students"]\<close>.
  The embedding follows the source function by function. What the source leaves to its
  libraries is written out here as the libraries document it:

  \<^item> a BSON document is an ordered list of key/value pairs, a collection is the list of its
    documents in natural (insertion) order;
  \<^item> an \<open>ObjectId\<close> is the list of its bytes; \<open>str\<close> of it is two lower-case hexadecimal
    digits for each byte. A generated \<open>ObjectId\<close> has 12 bytes; one made from a string has
    the bytes that \<open>bytes.fromhex\<close> reads from its 24 characters, blanks skipped;
  \<^item> a Python \<open>float\<close> is modelled by the real number it denotes (only its order against
    the constant \<open>4.0\<close> is used; infinities and NaN are outside the model);
  \<^item> a request body carries values of the declared types; \<open>EmailStr\<close>, which refuses a
    string or returns the normalised address, is a parameter \<open>email_str\<close>;
  \<^item> each handler is modelled up to the value it returns or the exception it raises, the
    collection being passed in and returned; for \<open>PUT /{id}\<close> the validation of the
    returned document against \<open>response_model=StudentModel\<close> is modelled as well.
\<close>

subsection \<open>Values, documents and the collection\<close>

type_synonym ObjectId = "8 word list"

datatype bson = BNull | BStr string | BDouble real | BOid ObjectId

type_synonym document = "(string \<times> bson) list"

type_synonym collection = "document list"

datatype error =
    RequestValidationError "string list"
  | ResponseValidationError "string list"
  | HTTPException nat string
  | DuplicateKeyError

subsection \<open>\<open>bson.ObjectId\<close>\<close>

definition hex_val :: "char \<Rightarrow> nat option" where
  "hex_val c =
     (let n = (of_char c :: nat)
      in if 48 \<le> n \<and> n \<le> 57 then Some (n - 48)
         else if 97 \<le> n \<and> n \<le> 102 then Some (n - 87)
         else if 65 \<le> n \<and> n \<le> 70 then Some (n - 55)
         else None)"

definition hex_digit :: "nat \<Rightarrow> char" where
  "hex_digit n = (if n < 10 then char_of (48 + n) else char_of (87 + n))"

definition is_space :: "char \<Rightarrow> bool" where
  "is_space c = ((of_char c :: nat) = 32 \<or> (9 \<le> (of_char c :: nat) \<and> (of_char c :: nat) \<le> 13))"

text \<open>
  \<open>bytes.fromhex(v)\<close>: ASCII whitespace is skipped before a byte, then two hexadecimal digits
  make the byte; anything else is the \<open>ValueError\<close>, here \<open>None\<close>.
\<close>

fun bytes_fromhex :: "string \<Rightarrow> 8 word list option" where
  "bytes_fromhex [] = Some []"
| "bytes_fromhex [c] = (if is_space c then Some [] else None)"
| "bytes_fromhex (c # d # ds) =
     (if is_space c then bytes_fromhex (d # ds)
      else case hex_val c of
             None \<Rightarrow> None
           | Some hi \<Rightarrow>
               (case hex_val d of
                  None \<Rightarrow> None
                | Some lo \<Rightarrow>
                    (case bytes_fromhex ds of
                       None \<Rightarrow> None
                     | Some bs \<Rightarrow> Some (of_nat (16 * hi + lo) # bs))))"

text \<open>\<open>ObjectId(v)\<close> on a string: 24 characters that \<open>bytes.fromhex\<close> reads, or \<open>InvalidId\<close>.\<close>

definition ObjectId_of :: "string \<Rightarrow> ObjectId option" where
  "ObjectId_of v = (if length v = 24 then bytes_fromhex v else None)"

text \<open>\<open>ObjectId.is_valid(v)\<close> on a string: whether \<open>ObjectId(v)\<close> can be made.\<close>

definition ObjectId_is_valid :: "string \<Rightarrow> bool" where
  "ObjectId_is_valid v = (ObjectId_of v \<noteq> None)"

text \<open>\<open>str(oid)\<close>: two lower-case hexadecimal digits for each byte.\<close>

definition ObjectId_str :: "ObjectId \<Rightarrow> string" where
  "ObjectId_str bs =
     concat (map (\<lambda>b. [hex_digit (unat b div 16), hex_digit (unat b mod 16)]) bs)"

text \<open>\<open>PyObjectId.validate\<close> (lines 39-43): \<open>None\<close> stands for the \<open>ValueError\<close>.\<close>

definition PyObjectId_validate :: "string \<Rightarrow> ObjectId option" where
  "PyObjectId_validate v =
     (if \<not> ObjectId_is_valid v then None else ObjectId_of v)"

subsection \<open>The pydantic models\<close>

text \<open>
  A member of a JSON request body is absent, \<open>null\<close>, or carries a value. \<open>body_id\<close> is the
  member \<open>_id\<close> (the alias of \<open>id\<close>; \<open>allow_population_by_field_name\<close> admits \<open>id\<close> too).
\<close>

datatype 'a field = Absent | Null | Present 'a

record StudentBody =
  body_id :: "string field"
  body_name :: "string field"
  body_email :: "string field"
  body_course :: "string field"
  body_gpa :: "real field"

text \<open>\<open>class StudentModel\<close> (lines 50-59).\<close>

record StudentModel =
  student_id :: ObjectId
  student_name :: string
  student_email :: string
  student_course :: string
  student_gpa :: real

text \<open>
  \<open>id: PyObjectId = Field(default_factory=PyObjectId, alias="_id")\<close>: an absent member takes
  the factory's fresh \<open>ObjectId\<close>, here \<open>new_id\<close>; a supplied one goes through
  \<open>PyObjectId.validate\<close>.
\<close>

definition validate_id :: "ObjectId \<Rightarrow> string field \<Rightarrow> ObjectId option" where
  "validate_id new_id f =
     (case f of Absent \<Rightarrow> Some new_id | Null \<Rightarrow> None | Present v \<Rightarrow> PyObjectId_validate v)"

text \<open>\<open>str = Field(...)\<close>: required.\<close>

definition validate_str :: "string field \<Rightarrow> string option" where
  "validate_str f = (case f of Absent \<Rightarrow> None | Null \<Rightarrow> None | Present s \<Rightarrow> Some s)"

text \<open>
  \<open>EmailStr = Field(...)\<close>: required; the field takes what \<open>EmailStr\<close> returns, the
  normalised address.
\<close>

definition validate_email :: "(string \<Rightarrow> string option) \<Rightarrow> string field \<Rightarrow> string option" where
  "validate_email email_str f =
     (case f of Absent \<Rightarrow> None | Null \<Rightarrow> None | Present s \<Rightarrow> email_str s)"

text \<open>\<open>gpa: float = Field(..., le=4.0)\<close>: required, at most 4.0.\<close>

definition validate_gpa :: "real field \<Rightarrow> real option" where
  "validate_gpa f =
     (case f of Absent \<Rightarrow> None | Null \<Rightarrow> None
      | Present g \<Rightarrow> (if g \<le> 4.0 then Some g else None))"

definition error_loc :: "string \<Rightarrow> 'a option \<Rightarrow> string list" where
  "error_loc loc r = (case r of None \<Rightarrow> [loc] | Some _ \<Rightarrow> [])"

text \<open>
  Parsing the body of \<open>POST /\<close> into a \<open>StudentModel\<close>: every field is validated, and the
  request is refused with the locations of all failures if there is one.
\<close>

definition StudentModel_validate ::
  "(string \<Rightarrow> string option) \<Rightarrow> ObjectId \<Rightarrow> StudentBody \<Rightarrow> error + StudentModel" where
  "StudentModel_validate email_str new_id b =
     (let i = validate_id new_id (body_id b);
          n = validate_str (body_name b);
          e = validate_email email_str (body_email b);
          c = validate_str (body_course b);
          g = validate_gpa (body_gpa b)
      in case (i, n, e, c, g) of
           (Some i', Some n', Some e', Some c', Some g') \<Rightarrow>
             Inr \<lparr>student_id = i', student_name = n', student_email = e',
                  student_course = c', student_gpa = g'\<rparr>
         | _ \<Rightarrow>
             Inl (RequestValidationError
                    (error_loc ''_id'' i @ error_loc ''name'' n @ error_loc ''email'' e
                     @ error_loc ''course'' c @ error_loc ''gpa'' g)))"

text \<open>\<open>class UpdateStudentModel\<close> (lines 84-90): every field \<open>Optional\<close>, none bounded.\<close>

record UpdateBody =
  patch_name :: "string field"
  patch_email :: "string field"
  patch_course :: "string field"
  patch_gpa :: "real field"

record UpdateStudentModel =
  update_name :: "string option"
  update_email :: "string option"
  update_course :: "string option"
  update_gpa :: "real option"

text \<open>An \<open>Optional\<close> field is \<open>None\<close> when the member is absent and when it is \<open>null\<close>.\<close>

definition optional :: "'a field \<Rightarrow> 'a option" where
  "optional f = (case f of Absent \<Rightarrow> None | Null \<Rightarrow> None | Present v \<Rightarrow> Some v)"

text \<open>
  An \<open>Optional[EmailStr]\<close> field is \<open>None\<close> in the same two cases; a string goes through
  \<open>EmailStr\<close>, which refuses it (the outer \<open>None\<close>) or returns the normalised address.
\<close>

definition optional_email :: "(string \<Rightarrow> string option) \<Rightarrow> string field \<Rightarrow> string option option" where
  "optional_email email_str f =
     (case f of
        Absent \<Rightarrow> Some None
      | Null \<Rightarrow> Some None
      | Present e \<Rightarrow> (case email_str e of None \<Rightarrow> None | Some e' \<Rightarrow> Some (Some e')))"

definition UpdateStudentModel_validate ::
  "(string \<Rightarrow> string option) \<Rightarrow> UpdateBody \<Rightarrow> error + UpdateStudentModel" where
  "UpdateStudentModel_validate email_str b =
     (case optional_email email_str (patch_email b) of
        None \<Rightarrow> Inl (RequestValidationError [''email''])
      | Some e \<Rightarrow>
          Inr \<lparr>update_name = optional (patch_name b), update_email = e,
               update_course = optional (patch_course b), update_gpa = optional (patch_gpa b)\<rparr>)"

text \<open>\<open>student.dict()\<close>: all four fields, Python's \<open>None\<close> as \<open>BNull\<close>.\<close>

definition py_str :: "string option \<Rightarrow> bson" where
  "py_str v = (case v of None \<Rightarrow> BNull | Some s \<Rightarrow> BStr s)"

definition py_float :: "real option \<Rightarrow> bson" where
  "py_float v = (case v of None \<Rightarrow> BNull | Some x \<Rightarrow> BDouble x)"

definition UpdateStudentModel_dict :: "UpdateStudentModel \<Rightarrow> (string \<times> bson) list" where
  "UpdateStudentModel_dict m =
     [(''name'', py_str (update_name m)), (''email'', py_str (update_email m)),
      (''course'', py_str (update_course m)), (''gpa'', py_float (update_gpa m))]"

text \<open>
  \<open>jsonable_encoder(student)\<close> on a \<open>StudentModel\<close>: the fields by alias, the \<open>ObjectId\<close>
  through \<open>json_encoders = {ObjectId: str}\<close>.
\<close>

definition jsonable_encoder :: "StudentModel \<Rightarrow> document" where
  "jsonable_encoder s =
     [(''_id'', BStr (ObjectId_str (student_id s))), (''name'', BStr (student_name s)),
      (''email'', BStr (student_email s)), (''course'', BStr (student_course s)),
      (''gpa'', BDouble (student_gpa s))]"

subsection \<open>The collection's operations\<close>

definition matches_id :: "bson \<Rightarrow> document \<Rightarrow> bool" where
  "matches_id k d = (map_of d ''_id'' = Some k)"

text \<open>\<open>find_one({"_id": k})\<close>: the first document whose \<open>_id\<close> is \<open>k\<close>, or \<open>None\<close>.\<close>

definition find_one :: "collection \<Rightarrow> bson \<Rightarrow> document option" where
  "find_one coll k = find (matches_id k) coll"

text \<open>
  \<open>insert_one(d)\<close>: a document without \<open>_id\<close> gets the driver's fresh \<open>ObjectId\<close>, here
  \<open>oid\<close>; a key that is already taken raises \<open>DuplicateKeyError\<close>.
\<close>

definition insert_one :: "ObjectId \<Rightarrow> collection \<Rightarrow> document \<Rightarrow> error + (bson \<times> collection)" where
  "insert_one oid coll d =
     (let d' = (case map_of d ''_id'' of None \<Rightarrow> (''_id'', BOid oid) # d | Some _ \<Rightarrow> d);
          k = (case map_of d ''_id'' of None \<Rightarrow> BOid oid | Some k' \<Rightarrow> k')
      in if find_one coll k \<noteq> None then Inl DuplicateKeyError
         else Inr (k, coll @ [d']))"


text \<open>\<open>{"$set": s}\<close> on one document: each assignment in turn, in place or appended.\<close>

fun set_fields :: "(string \<times> bson) list \<Rightarrow> document \<Rightarrow> document" where
  "set_fields [] d = d"
| "set_fields ((k, v) # s) d = set_fields s (AList.update k v d)"

fun update_first :: "(document \<Rightarrow> bool) \<Rightarrow> (document \<Rightarrow> document) \<Rightarrow> collection \<Rightarrow> collection" where
  "update_first P f [] = []"
| "update_first P f (d # ds) = (if P d then f d # ds else d # update_first P f ds)"

record UpdateResult =
  matched_count :: nat
  modified_count :: nat

text \<open>
  \<open>update_one({"_id": k}, {"$set": s})\<close>: the first match is rewritten; \<open>modified_count\<close>
  counts it only when the document really changed.
\<close>

definition update_one :: "collection \<Rightarrow> bson \<Rightarrow> (string \<times> bson) list \<Rightarrow> UpdateResult \<times> collection" where
  "update_one coll k s =
     (case find_one coll k of
        None \<Rightarrow> (\<lparr>matched_count = 0, modified_count = 0\<rparr>, coll)
      | Some d \<Rightarrow>
          (\<lparr>matched_count = 1, modified_count = (if set_fields s d = d then 0 else 1)\<rparr>,
           update_first (matches_id k) (set_fields s) coll))"

fun remove_first :: "(document \<Rightarrow> bool) \<Rightarrow> collection \<Rightarrow> collection" where
  "remove_first P [] = []"
| "remove_first P (d # ds) = (if P d then ds else d # remove_first P ds)"

text \<open>\<open>delete_one({"_id": k})\<close>: the first match is removed; the result is \<open>deleted_count\<close>.\<close>

definition delete_one :: "collection \<Rightarrow> bson \<Rightarrow> nat \<times> collection" where
  "delete_one coll k =
     (case find_one coll k of
        None \<Rightarrow> (0, coll)
      | Some _ \<Rightarrow> (1, remove_first (matches_id k) coll))"

subsection \<open>The handlers\<close>

datatype JSONResponse = JSONResponse nat "document option"

datatype Response = Response nat string

definition not_found :: "string \<Rightarrow> error" where
  "not_found i = HTTPException 404 (''Student '' @ i @ '' not found'')"

text \<open>\<open>create_student\<close> (lines 104-109).\<close>

definition create_student ::
  "ObjectId \<Rightarrow> collection \<Rightarrow> StudentModel \<Rightarrow> (error + JSONResponse) \<times> collection" where
  "create_student oid coll student =
     (let student' = jsonable_encoder student
      in case insert_one oid coll student' of
           Inl e \<Rightarrow> (Inl e, coll)
         | Inr (inserted_id, coll') \<Rightarrow>
             (Inr (JSONResponse 201 (find_one coll' inserted_id)), coll'))"

text \<open>
  \<open>POST /\<close>: the body is parsed into the handler's \<open>StudentModel\<close> parameter first. The
  handler returns a \<open>JSONResponse\<close>, which is sent as it is.
\<close>

definition post_student ::
  "(string \<Rightarrow> string option) \<Rightarrow> ObjectId \<Rightarrow> ObjectId \<Rightarrow> collection \<Rightarrow> StudentBody
     \<Rightarrow> (error + JSONResponse) \<times> collection" where
  "post_student email_str new_id oid coll b =
     (case StudentModel_validate email_str new_id b of
        Inl e \<Rightarrow> (Inl e, coll)
      | Inr student \<Rightarrow> create_student oid coll student)"


text \<open>\<open>show_student\<close> (lines 123-127).\<close>

definition show_student :: "collection \<Rightarrow> string \<Rightarrow> error + document" where
  "show_student coll i =
     (case find_one coll (BStr i) of
        Some student \<Rightarrow> Inr student
      | None \<Rightarrow> Inl (not_found i))"

text \<open>
  \<open>update_student\<close> (lines 131-146). \<open>assignments\<close> is the dict comprehension of line 132.
\<close>

definition assignments :: "UpdateStudentModel \<Rightarrow> (string \<times> bson) list" where
  "assignments m = filter (\<lambda>(k, v). v \<noteq> BNull) (UpdateStudentModel_dict m)"

definition update_student ::
  "collection \<Rightarrow> string \<Rightarrow> UpdateStudentModel \<Rightarrow> (error + document) \<times> collection" where
  "update_student coll i m =
     (let student = assignments m;
          existing = (\<lambda>c. case find_one c (BStr i) of
                             Some existing_student \<Rightarrow> (Inr existing_student, c)
                           | None \<Rightarrow> (Inl (not_found i), c))
      in if length student \<ge> 1 then
           (case update_one coll (BStr i) student of
              (update_result, coll') \<Rightarrow>
                if modified_count update_result = 1 then
                  (case find_one coll' (BStr i) of
                     Some updated_student \<Rightarrow> (Inr updated_student, coll')
                   | None \<Rightarrow> existing coll')
                else existing coll')
         else existing coll)"

text \<open>
  The handler on a request body: the body is parsed into the handler's \<open>UpdateStudentModel\<close>
  parameter, and the handler runs on the result.
\<close>

definition update_student_body ::
  "(string \<Rightarrow> string option) \<Rightarrow> collection \<Rightarrow> string \<Rightarrow> UpdateBody
     \<Rightarrow> (error + document) \<times> collection" where
  "update_student_body email_str coll i b =
     (case UpdateStudentModel_validate email_str b of
        Inl e \<Rightarrow> (Inl e, coll)
      | Inr m \<Rightarrow> update_student coll i m)"

text \<open>
  \<open>response_model=StudentModel\<close> (line 130): the document that the handler returns is
  validated as a \<open>StudentModel\<close>, field by field under the same constraints, and the model
  is encoded again. A stored string or float is taken as it is and an \<open>ObjectId\<close> is a
  valid \<open>PyObjectId\<close>; what pydantic makes of a value of another type where a \<open>str\<close> or a
  \<open>float\<close> is declared is left to the parameters \<open>str_of\<close> and \<open>float_of\<close>.
\<close>

definition response_id :: "ObjectId \<Rightarrow> bson option \<Rightarrow> ObjectId option" where
  "response_id new_id v =
     (case v of
        None \<Rightarrow> Some new_id
      | Some BNull \<Rightarrow> None
      | Some (BStr s) \<Rightarrow> PyObjectId_validate s
      | Some (BDouble x) \<Rightarrow> None
      | Some (BOid bs) \<Rightarrow> Some bs)"

definition response_str :: "(bson \<Rightarrow> string option) \<Rightarrow> bson option \<Rightarrow> string option" where
  "response_str str_of v =
     (case v of
        None \<Rightarrow> None
      | Some BNull \<Rightarrow> None
      | Some (BStr s) \<Rightarrow> Some s
      | Some (BDouble x) \<Rightarrow> str_of (BDouble x)
      | Some (BOid bs) \<Rightarrow> str_of (BOid bs))"

definition response_email ::
  "(string \<Rightarrow> string option) \<Rightarrow> (bson \<Rightarrow> string option) \<Rightarrow> bson option \<Rightarrow> string option" where
  "response_email email_str str_of v =
     (case response_str str_of v of None \<Rightarrow> None | Some s \<Rightarrow> email_str s)"

definition response_gpa :: "(bson \<Rightarrow> real option) \<Rightarrow> bson option \<Rightarrow> real option" where
  "response_gpa float_of v =
     (case (case v of
              None \<Rightarrow> None
            | Some BNull \<Rightarrow> None
            | Some (BStr s) \<Rightarrow> float_of (BStr s)
            | Some (BDouble x) \<Rightarrow> Some x
            | Some (BOid bs) \<Rightarrow> float_of (BOid bs)) of
        None \<Rightarrow> None
      | Some g \<Rightarrow> (if g \<le> 4.0 then Some g else None))"

definition serialize_response ::
  "(string \<Rightarrow> string option) \<Rightarrow> (bson \<Rightarrow> string option) \<Rightarrow> (bson \<Rightarrow> real option) \<Rightarrow> ObjectId
     \<Rightarrow> document \<Rightarrow> error + document" where
  "serialize_response email_str str_of float_of new_id d =
     (let i = response_id new_id (map_of d ''_id'');
          n = response_str str_of (map_of d ''name'');
          e = response_email email_str str_of (map_of d ''email'');
          c = response_str str_of (map_of d ''course'');
          g = response_gpa float_of (map_of d ''gpa'')
      in case (i, n, e, c, g) of
           (Some i', Some n', Some e', Some c', Some g') \<Rightarrow>
             Inr (jsonable_encoder
                    \<lparr>student_id = i', student_name = n', student_email = e',
                     student_course = c', student_gpa = g'\<rparr>)
         | _ \<Rightarrow>
             Inl (ResponseValidationError
                    (error_loc ''_id'' i @ error_loc ''name'' n @ error_loc ''email'' e
                     @ error_loc ''course'' c @ error_loc ''gpa'' g)))"

text \<open>
  \<open>PUT /{id}\<close> as a whole: the body is parsed, the handler runs, and what it returns is
  validated against the \<open>response_model\<close>. What the handler wrote stays written.
\<close>

definition put_student ::
  "(string \<Rightarrow> string option) \<Rightarrow> (bson \<Rightarrow> string option) \<Rightarrow> (bson \<Rightarrow> real option) \<Rightarrow> ObjectId
     \<Rightarrow> collection \<Rightarrow> string \<Rightarrow> UpdateBody \<Rightarrow> (error + document) \<times> collection" where
  "put_student email_str str_of float_of new_id coll i b =
     (case update_student_body email_str coll i b of
        (Inl e, coll') \<Rightarrow> (Inl e, coll')
      | (Inr d, coll') \<Rightarrow> (serialize_response email_str str_of float_of new_id d, coll'))"

text \<open>\<open>delete_student\<close> (lines 150-156).\<close>

definition delete_student :: "collection \<Rightarrow> string \<Rightarrow> (error + Response) \<times> collection" where
  "delete_student coll i =
     (case delete_one coll (BStr i) of
        (deleted_count, coll') \<Rightarrow>
          if deleted_count = 1 then (Inr (Response 204 []), coll')
          else (Inl (not_found i), coll'))"

section \<open>Properties\<close>

subsection \<open>Facts about the collection's operations\<close>

lemma find_one_None_iff:
  "(find_one coll k = None) = (\<not> (\<exists>d\<in>set coll. map_of d ''_id'' = Some k))"
  by (auto simp: find_one_def find_None_iff matches_id_def)

lemma find_one_SomeD:
  "find_one coll k = Some d \<Longrightarrow> d \<in> set coll \<and> map_of d ''_id'' = Some k"
  by (auto simp: find_one_def matches_id_def find_Some_iff)

lemma find_one_append_fresh:
  "find_one coll k = None \<Longrightarrow> map_of d ''_id'' = Some k \<Longrightarrow> find_one (coll @ [d]) k = Some d"
  by (induction coll) (auto simp: find_one_def matches_id_def)

lemma map_of_set_fields:
  "k \<notin> fst ` set s \<Longrightarrow> map_of (set_fields s d) k = map_of d k"
  by (induction s d rule: set_fields.induct) (auto simp: update_conv')

lemma assignments_keys:
  "fst ` set (assignments m) \<subseteq> {''name'', ''email'', ''course'', ''gpa''}"
  by (auto simp: assignments_def UpdateStudentModel_dict_def)

lemma assignments_no_id: "''_id'' \<notin> fst ` set (assignments m)"
  using assignments_keys [of m] by auto

lemma find_update_first:
  "(\<And>d. P d \<Longrightarrow> P (f d)) \<Longrightarrow> find P (update_first P f coll) = map_option f (find P coll)"
  by (induction coll) auto

lemma update_first_same:
  "find P coll = Some d \<Longrightarrow> f d = d \<Longrightarrow> update_first P f coll = coll"
  by (induction coll) (auto split: if_splits)


lemma matches_id_set_fields:
  "matches_id k d \<Longrightarrow> matches_id k (set_fields (assignments m) d)"
  by (simp add: matches_id_def map_of_set_fields assignments_no_id)

lemma update_student_missing:
  assumes "find_one coll (BStr i) = None"
  shows "update_student coll i m = (Inl (not_found i), coll)"
  using assms by (simp add: update_student_def update_one_def Let_def)

lemma update_student_existing:
  assumes "find_one coll (BStr i) = Some d"
  shows "update_student coll i m =
           (Inr (set_fields (assignments m) d),
            update_first (matches_id (BStr i)) (set_fields (assignments m)) coll)"
proof -
  let ?s = "assignments m"
  let ?coll' = "update_first (matches_id (BStr i)) (set_fields ?s) coll"
  have found: "find_one ?coll' (BStr i) = Some (set_fields ?s d)"
    using assms find_update_first [of "matches_id (BStr i)" "set_fields ?s" coll]
    by (simp add: find_one_def matches_id_set_fields)
  show ?thesis
  proof (cases "set_fields ?s d = d")
    case True
    then have same: "?coll' = coll"
      using assms update_first_same [of "matches_id (BStr i)" coll d "set_fields ?s"]
      by (simp add: find_one_def)
    show ?thesis
      using assms True same by (simp add: update_student_def update_one_def Let_def)
  next
    case False
    then have "?s \<noteq> []" by auto
    then have "length ?s \<ge> 1" by (cases ?s) auto
    then show ?thesis
      using assms False found by (simp add: update_student_def update_one_def Let_def)
  qed
qed

lemma remove_first_none: "find P coll = None \<Longrightarrow> remove_first P coll = coll"
  by (induction coll) (auto split: if_splits)

lemma remove_first_length: "find P coll = Some d \<Longrightarrow> Suc (length (remove_first P coll)) = length coll"
  by (induction coll) (auto split: if_splits)

subsection \<open>Deleting\<close>

text \<open>
  Claim C5. \<open>delete_student\<close> raises the 404 \<open>HTTPException\<close> with the message
  \<open>Student {id} not found\<close> exactly when \<open>delete_one\<close> reports zero deleted documents, which
  is exactly when no document of the collection has that \<open>_id\<close>, and then the collection is
  left as it was. When \<open>delete_one\<close> reports one deleted document, the handler returns a
  \<open>Response\<close> with status 204 and an empty body, and the collection is one document shorter.
  \<open>delete_one\<close> never reports another count.
\<close>

theorem delete_student_result:
  "(fst (delete_student coll i) = Inl (HTTPException 404 (''Student '' @ i @ '' not found'')))
     = (fst (delete_one coll (BStr i)) = 0)
   \<and> (fst (delete_one coll (BStr i)) = 1 \<longrightarrow>
        fst (delete_student coll i) = Inr (Response 204 [])
        \<and> Suc (length (snd (delete_student coll i))) = length coll)
   \<and> (fst (delete_one coll (BStr i)) = 0 \<or> fst (delete_one coll (BStr i)) = 1)
   \<and> (fst (delete_one coll (BStr i)) = 0)
       = (\<not> (\<exists>d\<in>set coll. map_of d ''_id'' = Some (BStr i)))
   \<and> (fst (delete_one coll (BStr i)) = 0 \<longrightarrow> snd (delete_student coll i) = coll)"
proof (cases "find_one coll (BStr i)")
  case None
  then show ?thesis
    using find_one_None_iff [of coll "BStr i"]
    by (simp add: delete_student_def delete_one_def not_found_def)
next
  case (Some d)
  then show ?thesis
    using find_one_SomeD [OF Some] remove_first_length [of "matches_id (BStr i)" coll d]
    by (auto simp: delete_student_def delete_one_def not_found_def find_one_def)
qed

theorem delete_student_result_witness:
  "fst (delete_one [[(''_id'', BStr ''abc''), (''name'', BStr ''Jane'')]] (BStr ''abc'')) = 1
   \<and> delete_student [[(''_id'', BStr ''abc''), (''name'', BStr ''Jane'')]] ''abc''
       = (Inr (Response 204 []), [])
   \<and> fst (delete_one [[(''_id'', BStr ''abc''), (''name'', BStr ''Jane'')]] (BStr ''abd'')) = 0
   \<and> delete_student [[(''_id'', BStr ''abc''), (''name'', BStr ''Jane'')]] ''abd''
       = (Inl (HTTPException 404 ''Student abd not found''),
          [[(''_id'', BStr ''abc''), (''name'', BStr ''Jane'')]])"
  using delete_student_result [of "[[(''_id'', BStr ''abc''), (''name'', BStr ''Jane'')]]" "''abc''"]
        delete_student_result [of "[[(''_id'', BStr ''abc''), (''name'', BStr ''Jane'')]]" "''abd''"]
  by (simp (no_asm) add: delete_student_def delete_one_def find_one_def matches_id_def not_found_def)

subsection \<open>Reading one student\<close>

text \<open>
  Claim C6. \<open>show_student\<close> looks the supplied string up as it is, as the string value
  \<open>BStr i\<close>, for every string \<open>i\<close>: it raises the 404 \<open>HTTPException\<close> with the message
  \<open>Student {id} not found\<close> exactly when no document of the collection has that string as
  its \<open>_id\<close>, raises nothing else, and otherwise returns the first document with that
  \<open>_id\<close>. The string is not converted to an \<open>ObjectId\<close>: a document whose \<open>_id\<close> is the
  \<open>ObjectId\<close> that the string spells is not found.
\<close>

theorem show_student_lookup:
  "(show_student coll i = Inl (HTTPException 404 (''Student '' @ i @ '' not found'')))
     = (\<not> (\<exists>d\<in>set coll. map_of d ''_id'' = Some (BStr i)))
   \<and> (\<forall>e. show_student coll i = Inl e \<longrightarrow>
          e = HTTPException 404 (''Student '' @ i @ '' not found''))
   \<and> (\<forall>d. show_student coll i = Inr d \<longrightarrow>
          find_one coll (BStr i) = Some d \<and> d \<in> set coll \<and> map_of d ''_id'' = Some (BStr i))
   \<and> show_student [[(''_id'', BOid w)]] (ObjectId_str w) =
        Inl (HTTPException 404 (''Student '' @ ObjectId_str w @ '' not found''))"
proof -
  have none: "find_one coll (BStr i) = None \<Longrightarrow> show_student coll i = Inl (not_found i)"
    by (simp add: show_student_def)
  have some: "\<And>d. find_one coll (BStr i) = Some d \<Longrightarrow> show_student coll i = Inr d"
    by (simp add: show_student_def)
  show ?thesis
  proof (cases "find_one coll (BStr i)")
    case None
    then show ?thesis
      using none find_one_None_iff [of coll "BStr i"]
      by (simp add: not_found_def show_student_def find_one_def matches_id_def)
  next
    case (Some d)
    then show ?thesis
      using some [OF Some] find_one_SomeD [OF Some]
      by (auto simp: not_found_def show_student_def find_one_def matches_id_def)
  qed
qed

theorem show_student_lookup_witness:
  "show_student [[(''_id'', BStr ''abc''), (''name'', BStr ''Jane'')]] ''abc''
     = Inr [(''_id'', BStr ''abc''), (''name'', BStr ''Jane'')]
   \<and> find_one [[(''_id'', BStr ''abc''), (''name'', BStr ''Jane'')]] (BStr ''abc'')
       = Some [(''_id'', BStr ''abc''), (''name'', BStr ''Jane'')]
   \<and> show_student [[(''_id'', BStr ''abc''), (''name'', BStr ''Jane'')]] ''abd''
       = Inl (HTTPException 404 ''Student abd not found'')"
  using show_student_lookup [of "[[(''_id'', BStr ''abc''), (''name'', BStr ''Jane'')]]" "''abc''" "[]"]
        show_student_lookup [of "[[(''_id'', BStr ''abc''), (''name'', BStr ''Jane'')]]" "''abd''" "[]"]
  by (simp (no_asm) add: show_student_def find_one_def matches_id_def not_found_def)

subsection \<open>Listing\<close>



subsection \<open>Updating\<close>

lemma assignments_empty [simp]:
  "assignments \<lparr>update_name = None, update_email = None, update_course = None, update_gpa = None\<rparr> = []"
  by (simp add: assignments_def UpdateStudentModel_dict_def py_str_def py_float_def)



lemmas eval_defs =
  update_student_def update_one_def find_one_def matches_id_def assignments_def
  UpdateStudentModel_dict_def py_str_def py_float_def show_student_def not_found_def
  update_student_body_def UpdateStudentModel_validate_def optional_def optional_email_def Let_def





subsection \<open>The assignments of an update\<close>

lemma validate_absent_null:
  "UpdateStudentModel_validate email_str (b\<lparr>patch_name := Null\<rparr>)
     = UpdateStudentModel_validate email_str (b\<lparr>patch_name := Absent\<rparr>)"
  "UpdateStudentModel_validate email_str (b\<lparr>patch_email := Null\<rparr>)
     = UpdateStudentModel_validate email_str (b\<lparr>patch_email := Absent\<rparr>)"
  "UpdateStudentModel_validate email_str (b\<lparr>patch_course := Null\<rparr>)
     = UpdateStudentModel_validate email_str (b\<lparr>patch_course := Absent\<rparr>)"
  "UpdateStudentModel_validate email_str (b\<lparr>patch_gpa := Null\<rparr>)
     = UpdateStudentModel_validate email_str (b\<lparr>patch_gpa := Absent\<rparr>)"
  by (simp_all add: UpdateStudentModel_validate_def optional_def optional_email_def
        split: option.splits)

lemma validate_update_fields:
  assumes "UpdateStudentModel_validate email_str b = Inr m"
  shows "update_name m = optional (patch_name b)"
    and "optional_email email_str (patch_email b) = Some (update_email m)"
    and "update_course m = optional (patch_course b)"
    and "update_gpa m = optional (patch_gpa b)"
  using assms by (auto simp: UpdateStudentModel_validate_def split: option.splits)

lemma set_assignments:
  "set (assignments m) =
     {(''name'', BStr s) | s. update_name m = Some s}
     \<union> {(''email'', BStr s) | s. update_email m = Some s}
     \<union> {(''course'', BStr s) | s. update_course m = Some s}
     \<union> {(''gpa'', BDouble x) | x. update_gpa m = Some x}"
  by (auto simp: assignments_def UpdateStudentModel_dict_def py_str_def py_float_def
           split: option.splits)

lemma optional_Some: "(optional f = Some v) = (f = Present v)"
  by (cases f) (simp_all add: optional_def)

lemma optional_email_Some:
  "(optional_email email_str f = Some (Some v)) = (\<exists>e. f = Present e \<and> email_str e = Some v)"
  by (cases f) (auto simp: optional_email_def split: option.splits)

lemma distinct_assignments: "distinct (map fst (assignments m))"
  by (simp add: assignments_def UpdateStudentModel_dict_def)

lemma map_of_set_fields_case:
  "distinct (map fst s) \<Longrightarrow>
     map_of (set_fields s d) k = (case map_of s k of None \<Rightarrow> map_of d k | Some v \<Rightarrow> Some v)"
proof (induction s d rule: set_fields.induct)
  case (1 d)
  show ?case by simp
next
  case (2 k' v s d)
  then have "map_of s k' = None"
    by (simp add: map_of_eq_None_iff)
  with 2 show ?case
    by (auto simp: update_conv' split: option.splits)
qed

lemma update_student_store:
  "snd (update_student coll i m) =
     (if assignments m = [] then coll else snd (update_one coll (BStr i) (assignments m)))"
proof (cases "find_one coll (BStr i)")
  case None
  then show ?thesis by (simp add: update_student_missing update_one_def)
next
  case (Some d)
  have "assignments m = [] \<Longrightarrow>
          update_first (matches_id (BStr i)) (set_fields (assignments m)) coll = coll"
    using Some update_first_same [of "matches_id (BStr i)" coll d "set_fields (assignments m)"]
    by (simp add: find_one_def)
  with Some show ?thesis
    by (simp add: update_student_existing update_one_def)
qed

lemma find_one_update_student:
  assumes "find_one coll (BStr i) = Some d"
  shows "find_one (snd (update_student coll i m)) (BStr i) = Some (set_fields (assignments m) d)"
  using assms find_update_first [of "matches_id (BStr i)" "set_fields (assignments m)" coll]
  by (simp add: update_student_existing find_one_def matches_id_set_fields)

text \<open>
  Claim C4. The assignments that \<open>update_student\<close> hands to \<open>update_one\<close> as \<open>$set\<close> are
  exactly the members of the request body that carry a value. For a body that validates,
  the handler runs on the parsed model, and the set of assignments is the set of pairs of
  a field's name and its value over the members that are present and not \<open>null\<close>, the
  e-mail address as \<open>EmailStr\<close> returns it. A member that is \<open>null\<close> and a member that is
  absent give the same result of the request. No assignment carries \<open>null\<close> and no field
  is assigned twice. The collection after the handler is the one \<open>update_one\<close> leaves with
  these assignments, and the collection as it was when there are none. For an existing
  document the handler returns, and the collection then holds under the id, the document
  with the assignments applied: an assigned field has the assigned value, every other
  field keeps its stored value.
\<close>

theorem update_assignments:
  "update_student_body email_str coll i (b\<lparr>patch_name := Null\<rparr>)
     = update_student_body email_str coll i (b\<lparr>patch_name := Absent\<rparr>)
   \<and> update_student_body email_str coll i (b\<lparr>patch_email := Null\<rparr>)
     = update_student_body email_str coll i (b\<lparr>patch_email := Absent\<rparr>)
   \<and> update_student_body email_str coll i (b\<lparr>patch_course := Null\<rparr>)
     = update_student_body email_str coll i (b\<lparr>patch_course := Absent\<rparr>)
   \<and> update_student_body email_str coll i (b\<lparr>patch_gpa := Null\<rparr>)
     = update_student_body email_str coll i (b\<lparr>patch_gpa := Absent\<rparr>)
   \<and> (UpdateStudentModel_validate email_str b = Inr m \<longrightarrow>
        update_student_body email_str coll i b = update_student coll i m
        \<and> set (assignments m) =
            {(''name'', BStr s) | s. patch_name b = Present s}
            \<union> {(''email'', BStr e') | e'. \<exists>e. patch_email b = Present e \<and> email_str e = Some e'}
            \<union> {(''course'', BStr s) | s. patch_course b = Present s}
            \<union> {(''gpa'', BDouble x) | x. patch_gpa b = Present x})
   \<and> BNull \<notin> snd ` set (assignments m)
   \<and> distinct (map fst (assignments m))
   \<and> snd (update_student coll i m) =
       (if assignments m = [] then coll else snd (update_one coll (BStr i) (assignments m)))
   \<and> (find_one coll (BStr i) = Some d \<longrightarrow>
        fst (update_student coll i m) = Inr (set_fields (assignments m) d)
        \<and> find_one (snd (update_student coll i m)) (BStr i) = Some (set_fields (assignments m) d))
   \<and> map_of (set_fields (assignments m) d) k =
       (case map_of (assignments m) k of None \<Rightarrow> map_of d k | Some v \<Rightarrow> Some v)
   \<and> (k \<notin> fst ` set (assignments m) \<longrightarrow>
        map_of (set_fields (assignments m) d) k = map_of d k)"
proof -
  have null: "BNull \<notin> snd ` set (assignments m)"
    by (auto simp: set_assignments)
  have exact: "UpdateStudentModel_validate email_str b = Inr m \<longrightarrow>
        update_student_body email_str coll i b = update_student coll i m
        \<and> set (assignments m) =
            {(''name'', BStr s) | s. patch_name b = Present s}
            \<union> {(''email'', BStr e') | e'. \<exists>e. patch_email b = Present e \<and> email_str e = Some e'}
            \<union> {(''course'', BStr s) | s. patch_course b = Present s}
            \<union> {(''gpa'', BDouble x) | x. patch_gpa b = Present x}"
  proof
    assume v: "UpdateStudentModel_validate email_str b = Inr m"
    have e: "\<And>s. (update_email m = Some s) = (\<exists>e. patch_email b = Present e \<and> email_str e = Some s)"
      using validate_update_fields(2) [OF v] optional_email_Some [of email_str "patch_email b"]
      by auto
    show "update_student_body email_str coll i b = update_student coll i m
        \<and> set (assignments m) =
            {(''name'', BStr s) | s. patch_name b = Present s}
            \<union> {(''email'', BStr e') | e'. \<exists>e. patch_email b = Present e \<and> email_str e = Some e'}
            \<union> {(''course'', BStr s) | s. patch_course b = Present s}
            \<union> {(''gpa'', BDouble x) | x. patch_gpa b = Present x}"
      using v
      by (simp add: update_student_body_def set_assignments validate_update_fields(1,3,4) [OF v]
            optional_Some e)
  qed
  have stored: "find_one coll (BStr i) = Some d \<longrightarrow>
        fst (update_student coll i m) = Inr (set_fields (assignments m) d)
        \<and> find_one (snd (update_student coll i m)) (BStr i) = Some (set_fields (assignments m) d)"
    using find_one_update_student [of coll i d m]
    by (simp add: update_student_existing)
  from null exact stored show ?thesis
    using update_student_store [of coll i m]
    by (simp add: update_student_body_def validate_absent_null map_of_set_fields
          distinct_assignments map_of_set_fields_case)
qed

theorem update_assignments_witness:
  "UpdateStudentModel_validate
      (\<lambda>v. if v = ''JDoe@EXAMPLE.com'' then Some ''JDoe@example.com'' else None)
      \<lparr>patch_name = Null, patch_email = Present ''JDoe@EXAMPLE.com'', patch_course = Absent,
       patch_gpa = Present 3.5\<rparr>
     = Inr \<lparr>update_name = None, update_email = Some ''JDoe@example.com'', update_course = None,
            update_gpa = Some 3.5\<rparr>
   \<and> assignments \<lparr>update_name = None, update_email = Some ''JDoe@example.com'',
                    update_course = None, update_gpa = Some 3.5\<rparr>
       = [(''email'', BStr ''JDoe@example.com''), (''gpa'', BDouble 3.5)]
   \<and> find_one [[(''_id'', BStr ''abc''), (''name'', BStr ''Jane''), (''email'', BStr ''j@x.org''),
                 (''gpa'', BDouble 3)]] (BStr ''abc'')
       = Some [(''_id'', BStr ''abc''), (''name'', BStr ''Jane''), (''email'', BStr ''j@x.org''),
               (''gpa'', BDouble 3)]
   \<and> update_student_body
        (\<lambda>v. if v = ''JDoe@EXAMPLE.com'' then Some ''JDoe@example.com'' else None)
        [[(''_id'', BStr ''abc''), (''name'', BStr ''Jane''), (''email'', BStr ''j@x.org''),
          (''gpa'', BDouble 3)]] ''abc''
        \<lparr>patch_name = Null, patch_email = Present ''JDoe@EXAMPLE.com'', patch_course = Absent,
         patch_gpa = Present 3.5\<rparr>
       = (Inr [(''_id'', BStr ''abc''), (''name'', BStr ''Jane''),
               (''email'', BStr ''JDoe@example.com''), (''gpa'', BDouble 3.5)],
          [[(''_id'', BStr ''abc''), (''name'', BStr ''Jane''),
            (''email'', BStr ''JDoe@example.com''), (''gpa'', BDouble 3.5)]])
   \<and> ''name'' \<notin> fst ` set (assignments \<lparr>update_name = None,
                                            update_email = Some ''JDoe@example.com'',
                                            update_course = None, update_gpa = Some 3.5\<rparr>)"
  using update_assignments
          [of "\<lambda>v. if v = ''JDoe@EXAMPLE.com'' then Some ''JDoe@example.com'' else None"
              "[[(''_id'', BStr ''abc''), (''name'', BStr ''Jane''), (''email'', BStr ''j@x.org''),
                 (''gpa'', BDouble 3)]]" "''abc''"
              "\<lparr>patch_name = Null, patch_email = Present ''JDoe@EXAMPLE.com'',
                patch_course = Absent, patch_gpa = Present 3.5\<rparr>"
              "\<lparr>update_name = None, update_email = Some ''JDoe@example.com'',
                update_course = None, update_gpa = Some 3.5\<rparr>"
              "[(''_id'', BStr ''abc''), (''name'', BStr ''Jane''), (''email'', BStr ''j@x.org''),
                (''gpa'', BDouble 3)]"
              "''name''"]
  by (simp (no_asm) add: eval_defs)

subsection \<open>Creating\<close>

lemma StudentModel_validate_Inl:
  "StudentModel_validate email_str new_id b = Inl e \<Longrightarrow>
     e = RequestValidationError
           (error_loc ''_id'' (validate_id new_id (body_id b))
            @ error_loc ''name'' (validate_str (body_name b))
            @ error_loc ''email'' (validate_email email_str (body_email b))
            @ error_loc ''course'' (validate_str (body_course b))
            @ error_loc ''gpa'' (validate_gpa (body_gpa b)))"
  by (auto simp: StudentModel_validate_def Let_def split: option.splits)

lemma StudentModel_validate_Inr:
  "validate_id new_id (body_id b) = Some k \<Longrightarrow> validate_str (body_name b) = Some n \<Longrightarrow>
   validate_email email_str (body_email b) = Some e \<Longrightarrow> validate_str (body_course b) = Some c \<Longrightarrow>
   validate_gpa (body_gpa b) = Some g \<Longrightarrow>
   StudentModel_validate email_str new_id b =
     Inr \<lparr>student_id = k, student_name = n, student_email = e, student_course = c,
          student_gpa = g\<rparr>"
  by (simp add: StudentModel_validate_def)

lemma StudentModel_validate_gpa_None:
  "validate_gpa (body_gpa b) = None \<Longrightarrow>
   StudentModel_validate email_str new_id b =
     Inl (RequestValidationError
           (error_loc ''_id'' (validate_id new_id (body_id b))
            @ error_loc ''name'' (validate_str (body_name b))
            @ error_loc ''email'' (validate_email email_str (body_email b))
            @ error_loc ''course'' (validate_str (body_course b))
            @ [''gpa'']))"
  by (simp add: StudentModel_validate_def Let_def error_loc_def split: option.splits)

lemma StudentModel_validate_id:
  assumes "StudentModel_validate email_str new_id b = Inr s"
  shows "validate_id new_id (body_id b) = Some (student_id s)"
  using assms by (auto simp: StudentModel_validate_def Let_def split: option.splits)

lemma validate_id_cases:
  "validate_id new_id f = Some k \<Longrightarrow>
     (case f of Absent \<Rightarrow> k = new_id | Null \<Rightarrow> False
      | Present v \<Rightarrow> ObjectId_is_valid v \<and> ObjectId_of v = Some k)"
  by (auto simp: validate_id_def PyObjectId_validate_def split: field.splits if_splits)



lemma map_of_jsonable_encoder:
  "map_of (jsonable_encoder s) ''_id'' = Some (BStr (ObjectId_str (student_id s)))"
  "map_of (jsonable_encoder s) ''name'' = Some (BStr (student_name s))"
  "map_of (jsonable_encoder s) ''email'' = Some (BStr (student_email s))"
  "map_of (jsonable_encoder s) ''course'' = Some (BStr (student_course s))"
  "map_of (jsonable_encoder s) ''gpa'' = Some (BDouble (student_gpa s))"
  by (simp_all add: jsonable_encoder_def)

lemma create_student_fresh:
  assumes "find_one coll (BStr (ObjectId_str (student_id s))) = None"
  shows "create_student oid coll s =
           (Inr (JSONResponse 201 (Some (jsonable_encoder s))), coll @ [jsonable_encoder s])"
  using assms find_one_append_fresh [OF assms map_of_jsonable_encoder(1)]
  by (simp add: create_student_def insert_one_def map_of_jsonable_encoder Let_def)

lemma create_student_duplicate:
  assumes "find_one coll (BStr (ObjectId_str (student_id s))) \<noteq> None"
  shows "create_student oid coll s = (Inl DuplicateKeyError, coll)"
  using assms
  by (simp add: create_student_def insert_one_def map_of_jsonable_encoder Let_def)

lemma create_student_oid: "create_student oid coll s = create_student oid' coll s"
  by (simp add: create_student_def insert_one_def map_of_jsonable_encoder Let_def)

lemma ObjectId_str_1:
  "ObjectId_str [0, 0, 0, 0, 0, 0, 0, 0, 0, 0, 0, 1] = ''000000000000000000000001''"
  by code_simp

lemma ObjectId_of_1:
  "ObjectId_of ''000000000000000000000001'' = Some [0, 0, 0, 0, 0, 0, 0, 0, 0, 0, 0, 1]"
  by code_simp

lemma ObjectId_of_example:
  "ObjectId_of ''507f1f77bcf86cd799439011''
     = Some [80, 127, 31, 119, 188, 248, 108, 215, 153, 67, 144, 17]"
  by code_simp

lemma ObjectId_str_example:
  "ObjectId_str [80, 127, 31, 119, 188, 248, 108, 215, 153, 67, 144, 17]
     = ''507f1f77bcf86cd799439011''"
  by code_simp


lemmas create_eval_defs =
  post_student_def StudentModel_validate_def validate_id_def PyObjectId_validate_def
  ObjectId_is_valid_def validate_str_def validate_email_def validate_gpa_def error_loc_def
  create_student_def insert_one_def jsonable_encoder_def find_one_def matches_id_def Let_def

text \<open>
  Claim C3. A \<open>gpa\<close> above 4.0 makes \<open>POST /\<close> fail with a validation error that names
  \<open>gpa\<close>, and the collection is left as it was. A \<open>gpa\<close> of at most 4.0, the bound itself
  and every negative value included, passes the field's validation and is never among the
  locations of a validation error; when the other members are valid too, the body is
  accepted as a \<open>StudentModel\<close> with that \<open>gpa\<close>.
\<close>

theorem create_gpa_bound:
  "(body_gpa b = Present g \<and> 4 < g \<longrightarrow>
      (\<exists>locs. post_student email_str new_id oid coll b = (Inl (RequestValidationError locs), coll)
              \<and> ''gpa'' \<in> set locs))
   \<and> (body_gpa b = Present g \<and> g \<le> 4 \<longrightarrow>
        validate_gpa (body_gpa b) = Some g
        \<and> (\<forall>locs. StudentModel_validate email_str new_id b = Inl (RequestValidationError locs)
                  \<longrightarrow> ''gpa'' \<notin> set locs))
   \<and> (body_gpa b = Present g \<and> g \<le> 4 \<and> validate_id new_id (body_id b) = Some k
        \<and> body_name b = Present n \<and> body_email b = Present e \<and> email_str e = Some e'
        \<and> body_course b = Present c \<longrightarrow>
        StudentModel_validate email_str new_id b =
          Inr \<lparr>student_id = k, student_name = n, student_email = e', student_course = c,
               student_gpa = g\<rparr>)"
proof (intro conjI impI)
  assume h: "body_gpa b = Present g \<and> 4 < g"
  then have "validate_gpa (body_gpa b) = None"
    by (simp add: validate_gpa_def)
  then show "\<exists>locs. post_student email_str new_id oid coll b = (Inl (RequestValidationError locs), coll)
              \<and> ''gpa'' \<in> set locs"
    by (simp add: post_student_def StudentModel_validate_gpa_None)
next
  assume h: "body_gpa b = Present g \<and> g \<le> 4"
  then show "validate_gpa (body_gpa b) = Some g"
    by (simp add: validate_gpa_def)
next
  assume h: "body_gpa b = Present g \<and> g \<le> 4"
  then have g: "validate_gpa (body_gpa b) = Some g"
    by (simp add: validate_gpa_def)
  show "\<forall>locs. StudentModel_validate email_str new_id b = Inl (RequestValidationError locs)
                  \<longrightarrow> ''gpa'' \<notin> set locs"
  proof (intro allI impI)
    fix locs
    assume "StudentModel_validate email_str new_id b = Inl (RequestValidationError locs)"
    from StudentModel_validate_Inl [OF this] g show "''gpa'' \<notin> set locs"
      by (auto simp: error_loc_def split: option.splits)
  qed
next
  assume h: "body_gpa b = Present g \<and> g \<le> 4 \<and> validate_id new_id (body_id b) = Some k
        \<and> body_name b = Present n \<and> body_email b = Present e \<and> email_str e = Some e'
        \<and> body_course b = Present c"
  then show "StudentModel_validate email_str new_id b =
          Inr \<lparr>student_id = k, student_name = n, student_email = e', student_course = c,
               student_gpa = g\<rparr>"
    by (intro StudentModel_validate_Inr)
       (simp_all add: validate_gpa_def validate_str_def validate_email_def)
qed

theorem create_gpa_bound_witness:
  "StudentModel_validate (\<lambda>e. if CHR ''@'' \<in> set e then Some e else None)
      [0, 0, 0, 0, 0, 0, 0, 0, 0, 0, 0, 1]
      \<lparr>body_id = Absent, body_name = Present ''Jane Doe'', body_email = Present ''jdoe@example.com'',
       body_course = Present ''Nanophotonics'', body_gpa = Present 4.0\<rparr>
     = Inr \<lparr>student_id = [0, 0, 0, 0, 0, 0, 0, 0, 0, 0, 0, 1], student_name = ''Jane Doe'',
            student_email = ''jdoe@example.com'', student_course = ''Nanophotonics'',
            student_gpa = 4.0\<rparr>
   \<and> StudentModel_validate (\<lambda>e. if CHR ''@'' \<in> set e then Some e else None)
      [0, 0, 0, 0, 0, 0, 0, 0, 0, 0, 0, 1]
      \<lparr>body_id = Absent, body_name = Present ''Jane Doe'', body_email = Present ''jdoe@example.com'',
       body_course = Present ''Nanophotonics'', body_gpa = Present (- 1)\<rparr>
     = Inr \<lparr>student_id = [0, 0, 0, 0, 0, 0, 0, 0, 0, 0, 0, 1], student_name = ''Jane Doe'',
            student_email = ''jdoe@example.com'', student_course = ''Nanophotonics'',
            student_gpa = - 1\<rparr>
   \<and> post_student (\<lambda>e. if CHR ''@'' \<in> set e then Some e else None)
      [0, 0, 0, 0, 0, 0, 0, 0, 0, 0, 0, 1] [0, 0, 0, 0, 0, 0, 0, 0, 0, 0, 0, 2]
      [[(''_id'', BStr ''abc'')]]
      \<lparr>body_id = Absent, body_name = Present ''Jane Doe'', body_email = Present ''jdoe@example.com'',
       body_course = Present ''Nanophotonics'', body_gpa = Present 4.1\<rparr>
     = (Inl (RequestValidationError [''gpa'']), [[(''_id'', BStr ''abc'')]])"
  using create_gpa_bound
          [of "\<lparr>body_id = Absent, body_name = Present ''Jane Doe'',
                body_email = Present ''jdoe@example.com'',
                body_course = Present ''Nanophotonics'', body_gpa = Present 4.0\<rparr>"
              "4.0" "\<lambda>e. if CHR ''@'' \<in> set e then Some e else None"
              "[0, 0, 0, 0, 0, 0, 0, 0, 0, 0, 0, 1]" "[0, 0, 0, 0, 0, 0, 0, 0, 0, 0, 0, 2]"
              "[[(''_id'', BStr ''abc'')]]" "[0, 0, 0, 0, 0, 0, 0, 0, 0, 0, 0, 1]"
              "''Jane Doe''" "''jdoe@example.com''" "''jdoe@example.com''" "''Nanophotonics''"]
        create_gpa_bound
          [of "\<lparr>body_id = Absent, body_name = Present ''Jane Doe'',
                body_email = Present ''jdoe@example.com'',
                body_course = Present ''Nanophotonics'', body_gpa = Present (- 1)\<rparr>"
              "- 1" "\<lambda>e. if CHR ''@'' \<in> set e then Some e else None"
              "[0, 0, 0, 0, 0, 0, 0, 0, 0, 0, 0, 1]" "[0, 0, 0, 0, 0, 0, 0, 0, 0, 0, 0, 2]"
              "[[(''_id'', BStr ''abc'')]]" "[0, 0, 0, 0, 0, 0, 0, 0, 0, 0, 0, 1]"
              "''Jane Doe''" "''jdoe@example.com''" "''jdoe@example.com''" "''Nanophotonics''"]
        create_gpa_bound
          [of "\<lparr>body_id = Absent, body_name = Present ''Jane Doe'',
                body_email = Present ''jdoe@example.com'',
                body_course = Present ''Nanophotonics'', body_gpa = Present 4.1\<rparr>"
              "4.1" "\<lambda>e. if CHR ''@'' \<in> set e then Some e else None"
              "[0, 0, 0, 0, 0, 0, 0, 0, 0, 0, 0, 1]" "[0, 0, 0, 0, 0, 0, 0, 0, 0, 0, 0, 2]"
              "[[(''_id'', BStr ''abc'')]]" "[0, 0, 0, 0, 0, 0, 0, 0, 0, 0, 0, 1]"
              "''Jane Doe''" "''jdoe@example.com''" "''jdoe@example.com''" "''Nanophotonics''"]
  by (simp (no_asm) add: post_student_def StudentModel_validate_def validate_id_def
        validate_str_def validate_email_def validate_gpa_def error_loc_def)




text \<open>
  Where the id of a created student comes from. It is assigned by the service when the body
  is parsed, not by the store: whenever \<open>POST /\<close> succeeds, the stored and returned
  document carries as \<open>_id\<close> the string form of the model's \<open>ObjectId\<close>, which is the
  factory's fresh \<open>ObjectId\<close> when the body has no \<open>_id\<close>, and the \<open>ObjectId\<close> made from the
  client's \<open>_id\<close> when the body has one (\<open>null\<close> is refused). The \<open>ObjectId\<close> that the driver
  would generate for a document without \<open>_id\<close> never matters.
\<close>

lemma create_student_id_source:
  "(post_student email_str new_id oid coll b = (Inr r, coll') \<longrightarrow>
      (\<exists>s. StudentModel_validate email_str new_id b = Inr s
           \<and> r = JSONResponse 201 (Some (jsonable_encoder s))
           \<and> coll' = coll @ [jsonable_encoder s]
           \<and> map_of (jsonable_encoder s) ''_id'' = Some (BStr (ObjectId_str (student_id s)))
           \<and> (case body_id b of
                 Absent \<Rightarrow> student_id s = new_id
               | Null \<Rightarrow> False
               | Present v \<Rightarrow> ObjectId_is_valid v \<and> ObjectId_of v = Some (student_id s))))
   \<and> post_student email_str new_id oid coll b = post_student email_str new_id oid' coll b"
proof (intro conjI impI)
  assume ok: "post_student email_str new_id oid coll b = (Inr r, coll')"
  then obtain s where s: "StudentModel_validate email_str new_id b = Inr s"
    by (cases "StudentModel_validate email_str new_id b") (auto simp: post_student_def)
  with ok have cr: "create_student oid coll s = (Inr r, coll')"
    by (simp add: post_student_def)
  have fresh: "find_one coll (BStr (ObjectId_str (student_id s))) = None"
  proof (rule ccontr)
    assume "find_one coll (BStr (ObjectId_str (student_id s))) \<noteq> None"
    from create_student_duplicate [OF this, of oid] cr show False by simp
  qed
  from create_student_fresh [OF fresh, of oid] cr
  have res: "r = JSONResponse 201 (Some (jsonable_encoder s))" "coll' = coll @ [jsonable_encoder s]"
    by simp_all
  from validate_id_cases [OF StudentModel_validate_id [OF s]] s res
  show "\<exists>s. StudentModel_validate email_str new_id b = Inr s
           \<and> r = JSONResponse 201 (Some (jsonable_encoder s))
           \<and> coll' = coll @ [jsonable_encoder s]
           \<and> map_of (jsonable_encoder s) ''_id'' = Some (BStr (ObjectId_str (student_id s)))
           \<and> (case body_id b of
                 Absent \<Rightarrow> student_id s = new_id
               | Null \<Rightarrow> False
               | Present v \<Rightarrow> ObjectId_is_valid v \<and> ObjectId_of v = Some (student_id s))"
    by (intro exI [of _ s]) (simp add: map_of_jsonable_encoder)
next
  show "post_student email_str new_id oid coll b = post_student email_str new_id oid' coll b"
    by (cases "StudentModel_validate email_str new_id b")
       (simp_all add: post_student_def create_student_oid [of oid _ _ oid'])
qed

text \<open>
  Claim C8. The id of a created student is to be generated at creation, whatever identifier
  the client's body holds; the comment on the \<open>id\<close> field (line 52) says the alias keeps
  the field from being set from outside. The code does not keep this: with the same factory
  output and the same collection, a body that carries \<open>_id = "507f1f77bcf86cd799439011"\<close> is
  stored and returned under that very id, while the same body without \<open>_id\<close> is stored
  under the factory's id.
\<close>

theorem create_student_client_id:
  "post_student (\<lambda>e. if CHR ''@'' \<in> set e then Some e else None)
      [0, 0, 0, 0, 0, 0, 0, 0, 0, 0, 0, 1] [0, 0, 0, 0, 0, 0, 0, 0, 0, 0, 0, 2] []
      \<lparr>body_id = Present ''507f1f77bcf86cd799439011'', body_name = Present ''Jane Doe'',
       body_email = Present ''jdoe@example.com'', body_course = Present ''Nanophotonics'',
       body_gpa = Present 3.0\<rparr>
     = (Inr (JSONResponse 201
              (Some [(''_id'', BStr ''507f1f77bcf86cd799439011''), (''name'', BStr ''Jane Doe''),
                     (''email'', BStr ''jdoe@example.com''), (''course'', BStr ''Nanophotonics''),
                     (''gpa'', BDouble 3.0)])),
        [[(''_id'', BStr ''507f1f77bcf86cd799439011''), (''name'', BStr ''Jane Doe''),
          (''email'', BStr ''jdoe@example.com''), (''course'', BStr ''Nanophotonics''),
          (''gpa'', BDouble 3.0)]])
   \<and> post_student (\<lambda>e. if CHR ''@'' \<in> set e then Some e else None)
      [0, 0, 0, 0, 0, 0, 0, 0, 0, 0, 0, 1] [0, 0, 0, 0, 0, 0, 0, 0, 0, 0, 0, 2] []
      \<lparr>body_id = Absent, body_name = Present ''Jane Doe'',
       body_email = Present ''jdoe@example.com'', body_course = Present ''Nanophotonics'',
       body_gpa = Present 3.0\<rparr>
     = (Inr (JSONResponse 201
              (Some [(''_id'', BStr ''000000000000000000000001''), (''name'', BStr ''Jane Doe''),
                     (''email'', BStr ''jdoe@example.com''), (''course'', BStr ''Nanophotonics''),
                     (''gpa'', BDouble 3.0)])),
        [[(''_id'', BStr ''000000000000000000000001''), (''name'', BStr ''Jane Doe''),
          (''email'', BStr ''jdoe@example.com''), (''course'', BStr ''Nanophotonics''),
          (''gpa'', BDouble 3.0)]])"
  by (simp add: create_eval_defs ObjectId_of_example ObjectId_str_example ObjectId_str_1)

subsection \<open>The bound on \<open>gpa\<close> and \<open>PUT /{id}\<close>\<close>

lemma serialize_response_gpa:
  assumes "map_of d ''gpa'' = Some (BDouble g)" and "4 < g"
  shows "\<exists>locs. serialize_response email_str str_of float_of new_id d
                  = Inl (ResponseValidationError locs) \<and> ''gpa'' \<in> set locs"
proof -
  have "response_gpa float_of (map_of d ''gpa'') = None"
    using assms by (simp add: response_gpa_def)
  then show ?thesis
    by (simp add: serialize_response_def Let_def error_loc_def split: option.splits)
qed

lemmas response_eval_defs =
  put_student_def serialize_response_def response_id_def response_str_def response_email_def
  response_gpa_def PyObjectId_validate_def ObjectId_is_valid_def error_loc_def
  jsonable_encoder_def

text \<open>
  Claim C10, as amended. \<open>UpdateStudentModel\<close> puts no bound on \<open>gpa\<close>, which \<open>StudentModel\<close>
  bounds by 4.0 on create. For every existing document and every body that carries only a
  \<open>gpa\<close> above 4.0, the body validates, the handler writes the \<open>gpa\<close> and returns the
  document, and the collection then holds under the id a document whose \<open>gpa\<close> exceeds
  4.0. The request as a whole does not succeed: the returned document is validated against
  \<open>response_model=StudentModel\<close>, which refuses the \<open>gpa\<close>, and the write stays.
\<close>

theorem update_gpa_unbounded:
  "(find_one coll (BStr i) = Some d \<and> 4 < g \<longrightarrow>
      UpdateStudentModel_validate email_str
          \<lparr>patch_name = Absent, patch_email = Absent, patch_course = Absent, patch_gpa = Present g\<rparr>
        = Inr \<lparr>update_name = None, update_email = None, update_course = None, update_gpa = Some g\<rparr>
      \<and> update_student_body email_str coll i
          \<lparr>patch_name = Absent, patch_email = Absent, patch_course = Absent, patch_gpa = Present g\<rparr>
        = (Inr (AList.update ''gpa'' (BDouble g) d),
           update_first (matches_id (BStr i)) (AList.update ''gpa'' (BDouble g)) coll)
      \<and> find_one (update_first (matches_id (BStr i)) (AList.update ''gpa'' (BDouble g)) coll) (BStr i)
        = Some (AList.update ''gpa'' (BDouble g) d)
      \<and> map_of (AList.update ''gpa'' (BDouble g) d) ''gpa'' = Some (BDouble g)
      \<and> (\<exists>locs. put_student email_str str_of float_of new_id coll i
                  \<lparr>patch_name = Absent, patch_email = Absent, patch_course = Absent,
                   patch_gpa = Present g\<rparr>
                = (Inl (ResponseValidationError locs),
                   update_first (matches_id (BStr i)) (AList.update ''gpa'' (BDouble g)) coll)
               \<and> ''gpa'' \<in> set locs))
   \<and> (4 < g \<longrightarrow> validate_gpa (Present g) = None)"
proof (intro conjI impI)
  let ?b = "\<lparr>patch_name = Absent, patch_email = Absent, patch_course = Absent, patch_gpa = Present g\<rparr>"
  let ?m = "\<lparr>update_name = None, update_email = None, update_course = None, update_gpa = Some g\<rparr>"
  let ?d = "AList.update ''gpa'' (BDouble g) d"
  let ?coll = "update_first (matches_id (BStr i)) (AList.update ''gpa'' (BDouble g)) coll"
  assume h: "find_one coll (BStr i) = Some d \<and> 4 < g"
  show v: "UpdateStudentModel_validate email_str ?b = Inr ?m"
    by (simp add: UpdateStudentModel_validate_def optional_def optional_email_def)
  have s: "assignments ?m = [(''gpa'', BDouble g)]"
    by (simp add: assignments_def UpdateStudentModel_dict_def py_str_def py_float_def)
  have sf: "set_fields (assignments ?m) = AList.update ''gpa'' (BDouble g)"
    by (rule ext) (simp add: s)
  show u: "update_student_body email_str coll i ?b = (Inr ?d, ?coll)"
    using h v update_student_existing [of coll i d ?m]
    by (simp add: update_student_body_def sf)
  show "find_one ?coll (BStr i) = Some ?d"
    using h find_one_update_student [of coll i d ?m] update_student_existing [of coll i d ?m]
    by (simp add: sf)
  show g: "map_of ?d ''gpa'' = Some (BDouble g)"
    by (simp add: update_conv')
  from serialize_response_gpa [OF g, of email_str str_of float_of new_id] h u
  show "\<exists>locs. put_student email_str str_of float_of new_id coll i ?b
                = (Inl (ResponseValidationError locs), ?coll) \<and> ''gpa'' \<in> set locs"
    by (auto simp: put_student_def)
next
  assume "4 < g"
  then show "validate_gpa (Present g) = None"
    by (simp add: validate_gpa_def)
qed

theorem update_gpa_unbounded_witness:
  "find_one
      [[(''_id'', BStr ''000000000000000000000001''), (''name'', BStr ''Jane Doe''),
        (''email'', BStr ''jdoe@example.com''), (''course'', BStr ''Nanophotonics''),
        (''gpa'', BDouble 3.0)]]
      (BStr ''000000000000000000000001'')
     = Some [(''_id'', BStr ''000000000000000000000001''), (''name'', BStr ''Jane Doe''),
             (''email'', BStr ''jdoe@example.com''), (''course'', BStr ''Nanophotonics''),
             (''gpa'', BDouble 3.0)]
   \<and> (4 :: real) < 5.0
   \<and> update_student_body (\<lambda>e. if CHR ''@'' \<in> set e then Some e else None)
        [[(''_id'', BStr ''000000000000000000000001''), (''name'', BStr ''Jane Doe''),
          (''email'', BStr ''jdoe@example.com''), (''course'', BStr ''Nanophotonics''),
          (''gpa'', BDouble 3.0)]]
        ''000000000000000000000001''
        \<lparr>patch_name = Absent, patch_email = Absent, patch_course = Absent, patch_gpa = Present 5.0\<rparr>
     = (Inr [(''_id'', BStr ''000000000000000000000001''), (''name'', BStr ''Jane Doe''),
             (''email'', BStr ''jdoe@example.com''), (''course'', BStr ''Nanophotonics''),
             (''gpa'', BDouble 5.0)],
        [[(''_id'', BStr ''000000000000000000000001''), (''name'', BStr ''Jane Doe''),
          (''email'', BStr ''jdoe@example.com''), (''course'', BStr ''Nanophotonics''),
          (''gpa'', BDouble 5.0)]])
   \<and> validate_gpa (Present 5.0) = None"
  using update_gpa_unbounded
          [of "[[(''_id'', BStr ''000000000000000000000001''), (''name'', BStr ''Jane Doe''),
                 (''email'', BStr ''jdoe@example.com''), (''course'', BStr ''Nanophotonics''),
                 (''gpa'', BDouble 3.0)]]"
              "''000000000000000000000001''"
              "[(''_id'', BStr ''000000000000000000000001''), (''name'', BStr ''Jane Doe''),
                (''email'', BStr ''jdoe@example.com''), (''course'', BStr ''Nanophotonics''),
                (''gpa'', BDouble 3.0)]"
              "5.0" "\<lambda>e. if CHR ''@'' \<in> set e then Some e else None"
              "\<lambda>v. None" "\<lambda>v. None" "[0, 0, 0, 0, 0, 0, 0, 0, 0, 0, 0, 1]"]
  by (simp (no_asm) add: eval_defs validate_gpa_def)

text \<open>
  Claim C10, as stated, fails in that the update does not succeed: for the stored student
  with \<open>gpa\<close> 3.0 and the body \<open>{"gpa": 5.0}\<close>, \<open>PUT /{id}\<close> ends in the validation error
  of the response, naming \<open>gpa\<close>, after 5.0 has been stored. With \<open>{"gpa": 3.5}\<close> the same
  request returns the updated document.
\<close>

theorem update_gpa_unbounded_counterexample:
  "put_student (\<lambda>e. if CHR ''@'' \<in> set e then Some e else None) (\<lambda>v. None) (\<lambda>v. None)
      [0, 0, 0, 0, 0, 0, 0, 0, 0, 0, 0, 2]
      [[(''_id'', BStr ''000000000000000000000001''), (''name'', BStr ''Jane Doe''),
        (''email'', BStr ''jdoe@example.com''), (''course'', BStr ''Nanophotonics''),
        (''gpa'', BDouble 3.0)]]
      ''000000000000000000000001''
      \<lparr>patch_name = Absent, patch_email = Absent, patch_course = Absent, patch_gpa = Present 5.0\<rparr>
     = (Inl (ResponseValidationError [''gpa'']),
        [[(''_id'', BStr ''000000000000000000000001''), (''name'', BStr ''Jane Doe''),
          (''email'', BStr ''jdoe@example.com''), (''course'', BStr ''Nanophotonics''),
          (''gpa'', BDouble 5.0)]])
   \<and> put_student (\<lambda>e. if CHR ''@'' \<in> set e then Some e else None) (\<lambda>v. None) (\<lambda>v. None)
      [0, 0, 0, 0, 0, 0, 0, 0, 0, 0, 0, 2]
      [[(''_id'', BStr ''000000000000000000000001''), (''name'', BStr ''Jane Doe''),
        (''email'', BStr ''jdoe@example.com''), (''course'', BStr ''Nanophotonics''),
        (''gpa'', BDouble 3.0)]]
      ''000000000000000000000001''
      \<lparr>patch_name = Absent, patch_email = Absent, patch_course = Absent, patch_gpa = Present 3.5\<rparr>
     = (Inr [(''_id'', BStr ''000000000000000000000001''), (''name'', BStr ''Jane Doe''),
             (''email'', BStr ''jdoe@example.com''), (''course'', BStr ''Nanophotonics''),
             (''gpa'', BDouble 3.5)],
        [[(''_id'', BStr ''000000000000000000000001''), (''name'', BStr ''Jane Doe''),
          (''email'', BStr ''jdoe@example.com''), (''course'', BStr ''Nanophotonics''),
          (''gpa'', BDouble 3.5)]])"
  by (simp add: eval_defs response_eval_defs ObjectId_of_1 ObjectId_str_1)

end
